theory Spec2Isabelle
  imports Main "HOL-Library.Word"
begin

section \<open>Chronology pairs and extra metadata (resqpy/organize/organize_old.py)\<close>

text \<open>
  A chrono UUID is carried as the text found in the xml (what
  \<open>extract_has_occurred_during\<close> returns); Python's \<open>None\<close> is the
  option value \<open>None\<close>.  A pair argument is itself either \<open>None\<close> or a
  two-tuple of optional UUIDs, so the missing-pair sentinel \<open>(None, None)\<close>
  is \<open>Some (None, None)\<close>.
\<close>

type_synonym uuid_text = string

type_synonym chrono_pair = "(uuid_text option \<times> uuid_text option) option"

text \<open>
  \<open>equivalent_chrono_pairs(pair_a, pair_b, model = None)\<close>: the four tests of
  the source in their order; the branch on \<open>model\<close> is \<open>pass\<close>, and the
  final result is the cautious \<open>False\<close>.
\<close>

definition equivalent_chrono_pairs :: "chrono_pair \<Rightarrow> chrono_pair \<Rightarrow> 'm option \<Rightarrow> bool" where
  "equivalent_chrono_pairs pair_a pair_b model =
     (if pair_a = pair_b then True
      else if pair_a = None \<or> pair_b = None then False
      else if pair_a = Some (None, None) \<or> pair_b = Some (None, None) then False
      else (case model of Some m \<Rightarrow> False | None \<Rightarrow> False))"

text \<open>
  The argument of \<open>equivalent_extra_metadata\<close> is an object that either has
  an \<open>extra_metadata\<close> attribute holding a dictionary (\<open>len\<close> is applied to
  it unguarded), or has none, in which case the dictionary is loaded from the
  object's xml root and may be \<open>None\<close>.  Dictionaries are maps: Python's
  \<open>==\<close> on dictionaries is equality of the key/value mapping.
\<close>

datatype ('k, 'v) metadata_holder =
    WithAttribute "'k \<rightharpoonup> 'v"
  | FromXml "('k \<rightharpoonup> 'v) option"

text \<open>The value bound to \<open>a_em\<close>.\<close>

fun em_of :: "('k, 'v) metadata_holder \<Rightarrow> ('k \<rightharpoonup> 'v) option" where
  "em_of (WithAttribute em) = Some em"
| "em_of (FromXml r) = r"

text \<open>The final value of \<open>a_has\<close>: \<open>len(a_em) > 0\<close>, guarded by
  \<open>a_em is not None\<close> on the xml path.\<close>

fun has_em :: "('k, 'v) metadata_holder \<Rightarrow> bool" where
  "has_em (WithAttribute em) = (em \<noteq> Map.empty)"
| "has_em (FromXml r) = (case r of None \<Rightarrow> False | Some em \<Rightarrow> em \<noteq> Map.empty)"

definition equivalent_extra_metadata ::
  "('k, 'v) metadata_holder \<Rightarrow> ('k, 'v) metadata_holder \<Rightarrow> bool" where
  "equivalent_extra_metadata a b =
     (if has_em a \<noteq> has_em b then False
      else if \<not> has_em a then True
      else em_of a = em_of b)"

section \<open>The xml tree and the time interval node\<close>

text \<open>
  An xml element as the code uses it: a tag, attributes, a text and ordered
  children.  The code mutates elements in place; the only element written by
  \<open>create_xml_has_occurred_during\<close> is the new sub-element, reached through
  no other handle, so the embedding returns the updated parent.
\<close>

datatype xml_node =
  Node (node_tag: string) (node_attrib: "(string \<times> string) list")
       (node_text: "string option") (node_children: "xml_node list")

text \<open>
  Modelled from the spec: the namespace table \<open>ns\<close> and the placeholder text
  \<open>rqet.null_xml_text\<close> of \<open>resqpy.olio\<close> are not among the sources; they are
  taken as parameters.
\<close>

record xml_consts =
  ns_xsi :: string
  ns_resqml2 :: string
  ns_eml :: string
  null_xml_text :: string

text \<open>
  Modelled from the spec: \<open>rqet.find_tag\<close>, \<open>rqet.find_nested_tags_text\<close>
  and \<open>rqet.SubElement\<close> are not among the sources.  Section 6 gives
  \<open>find_tag(parent, tag) -> node|None\<close>,
  \<open>find_nested_tags_text(parent, path) -> string|None\<close> and
  \<open>create_subelement(parent, tag) -> node\<close>.  A search returns the first
  child carrying the tag, as an element tree search does; tags are compared by
  their local name, so the embedding keeps local names only.
\<close>

definition find_tag :: "xml_node \<Rightarrow> string \<Rightarrow> xml_node option" where
  "find_tag parent t = find (\<lambda>c. node_tag c = t) (node_children parent)"

fun find_nested_tags :: "xml_node \<Rightarrow> string list \<Rightarrow> xml_node option" where
  "find_nested_tags n [] = Some n"
| "find_nested_tags n (t # ts) =
     (case find_tag n t of None \<Rightarrow> None | Some c \<Rightarrow> find_nested_tags c ts)"

definition find_nested_tags_text :: "xml_node \<Rightarrow> string list \<Rightarrow> string option" where
  "find_nested_tags_text n ts =
     (case find_nested_tags n ts of None \<Rightarrow> None | Some c \<Rightarrow> node_text c)"

definition SubElement :: "xml_node \<Rightarrow> xml_node \<Rightarrow> xml_node" where
  "SubElement parent child =
     Node (node_tag parent) (node_attrib parent) (node_text parent)
          (node_children parent @ [child])"

text \<open>
  Modelled from the spec: \<open>Model.create_ref_node\<close>, \<open>Model.root_for_uuid\<close>
  and \<open>Model.title_for_root\<close> are not among the sources.  Section 6 gives the shape
  of a reference node: a tagged element whose attributes declare a type, whose
  text is the placeholder, with child elements for the title and the target
  identifier.  The model is consulted for the title only, so it is the
  function from a UUID to the title of its root.
\<close>

type_synonym resq_model = "uuid_text \<Rightarrow> string option"

definition create_ref_node ::
  "xml_consts \<Rightarrow> string \<Rightarrow> string option \<Rightarrow> uuid_text \<Rightarrow> xml_node" where
  "create_ref_node k flavour title uuid =
     Node flavour [(ns_xsi k @ ''type'', ns_eml k @ ''DataObjectReference'')]
       (Some (null_xml_text k))
       [Node ''Title'' [] title [], Node ''UUID'' [] (Some uuid) []]"

text \<open>
  \<open>extract_has_occurred_during(parent_node, tag)\<close>: the texts of the nested
  UUID nodes of the first sub-node with the tag, or \<open>(None, None)\<close>.
\<close>

definition extract_has_occurred_during ::
  "xml_node \<Rightarrow> string \<Rightarrow> uuid_text option \<times> uuid_text option" where
  "extract_has_occurred_during parent_node t =
     (case find_tag parent_node t of
        None \<Rightarrow> (None, None)
      | Some hod_node \<Rightarrow>
          (find_nested_tags_text hod_node [''ChronoBottom'', ''UUID''],
           find_nested_tags_text hod_node [''ChronoTop'', ''UUID'']))"

text \<open>
  \<open>create_xml_has_occurred_during(model, parent_node, hod_pair, tag)\<close>: the two
  early returns, then the new sub-element with its type attribute, its
  placeholder text and the two reference nodes, appended to the parent.
\<close>

definition hod_node_of ::
  "xml_consts \<Rightarrow> resq_model \<Rightarrow> uuid_text \<Rightarrow> uuid_text \<Rightarrow> string \<Rightarrow> xml_node" where
  "hod_node_of k model base_chrono_uuid top_chrono_uuid t =
     Node t [(ns_xsi k @ ''type'', ns_resqml2 k @ ''TimeInterval'')]
       (Some (null_xml_text k))
       [create_ref_node k ''ChronoBottom'' (model base_chrono_uuid) base_chrono_uuid,
        create_ref_node k ''ChronoTop'' (model top_chrono_uuid) top_chrono_uuid]"

definition create_xml_has_occurred_during ::
  "xml_consts \<Rightarrow> resq_model \<Rightarrow> xml_node \<Rightarrow> chrono_pair \<Rightarrow> string \<Rightarrow> xml_node" where
  "create_xml_has_occurred_during k model parent_node hod_pair t =
     (case hod_pair of
        None \<Rightarrow> parent_node
      | Some (None, _) \<Rightarrow> parent_node
      | Some (Some b, None) \<Rightarrow> parent_node
      | Some (Some base_chrono_uuid, Some top_chrono_uuid) \<Rightarrow>
          SubElement parent_node (hod_node_of k model base_chrono_uuid top_chrono_uuid t))"

text \<open>Concrete values used where a property is evaluated.\<close>

definition example_consts :: xml_consts where
  "example_consts =
     \<lparr> ns_xsi = ''{xsi}'', ns_resqml2 = ''{resqml2}'', ns_eml = ''{eml}'',
       null_xml_text = [CHR 0x0A] \<rparr>"

definition example_model :: resq_model where
  "example_model u = (if u = ''b1'' then Some ''Jurassic base''
                      else if u = ''t1'' then Some ''Jurassic top'' else None)"

definition example_parent :: xml_node where
  "example_parent = Node ''GeneticBoundaryFeature'' [] None [Node ''Citation'' [] None []]"

definition parent_with_interval :: xml_node where
  "parent_with_interval =
     Node ''GeneticBoundaryFeature'' [] None [Node ''HasOccuredDuring'' [] None []]"

section \<open>Bespoke property kinds\<close>

text \<open>Values of an extra metadata dictionary: the test uses strings and integers.\<close>

datatype py_value = PyStr string | PyInt int

record property_kind =
  pk_title :: string
  pk_parent :: string
  pk_extra_metadata :: "string \<rightharpoonup> py_value"

text \<open>
  Modelled from the spec: \<open>PropertyKind\<close> and its equivalence test are not
  among the sources (only \<open>test_bespoke_property_kind\<close> in tests/test_property.py is).
  Section 4.5 names the title and the extra metadata.  The comparison of the
  parent kind is taken from the test, which the code has to pass: after \<open>pk5\<close>,
  which differs from \<open>pk1\<close> in its parent only, the model holds a fourth
  property kind.  The extra metadata are compared by
  \<open>equivalent_extra_metadata\<close>, both sides holding the attribute.
\<close>

definition property_kind_is_equivalent :: "property_kind \<Rightarrow> property_kind \<Rightarrow> bool" where
  "property_kind_is_equivalent a b =
     (pk_parent a = pk_parent b \<and> pk_title a = pk_title b
      \<and> equivalent_extra_metadata (WithAttribute (pk_extra_metadata a))
                                    (WithAttribute (pk_extra_metadata b)))"

text \<open>
  The rule as section 4.5 words it, without the parent kind; kept apart to be
  compared with the test.
\<close>

definition property_kind_rule_spec :: "property_kind \<Rightarrow> property_kind \<Rightarrow> bool" where
  "property_kind_rule_spec a b =
     (pk_title a = pk_title b
      \<and> equivalent_extra_metadata (WithAttribute (pk_extra_metadata a))
                                    (WithAttribute (pk_extra_metadata b)))"

text \<open>
  Modelled from the spec: \<open>PropertyKind.create_xml\<close> is not among the sources.  As
  the test shows, creating the xml of a kind that has an equivalent in the
  model reuses that part and adds none; otherwise the kind is added.  The rule
  is a parameter, so that both rules above can be run on the test.
\<close>

definition create_xml_property_kind ::
  "(property_kind \<Rightarrow> property_kind \<Rightarrow> bool) \<Rightarrow> property_kind list \<Rightarrow> property_kind
     \<Rightarrow> property_kind list" where
  "create_xml_property_kind rule kinds pk =
     (case find (\<lambda>other. rule pk other) kinds of
        Some other \<Rightarrow> kinds
      | None \<Rightarrow> kinds @ [pk])"

text \<open>The number of property kinds after each step of a sequence of creations.\<close>

fun counts_after ::
  "(property_kind \<Rightarrow> property_kind \<Rightarrow> bool) \<Rightarrow> property_kind list \<Rightarrow> property_kind list
     \<Rightarrow> nat list" where
  "counts_after rule kinds [] = []"
| "counts_after rule kinds (pk # pks) =
     (let kinds' = create_xml_property_kind rule kinds pk
      in length kinds' # counts_after rule kinds' pks)"

text \<open>
  The six kinds of \<open>test_bespoke_property_kind\<close>; a kind created without a
  parent has the parent \<open>continuous\<close> (\<open>pk6\<close>, created with it, is \<open>pk4\<close>).
\<close>

definition test_em :: "string \<rightharpoonup> py_value" where
  "test_em = [''something'' \<mapsto> PyStr ''important'', ''and_another_thing'' \<mapsto> PyInt 42]"

definition pk1 :: property_kind where
  "pk1 = \<lparr> pk_title = ''my kind of property'', pk_parent = ''continuous'',
           pk_extra_metadata = test_em \<rparr>"

definition pk3 :: property_kind where
  "pk3 = \<lparr> pk_title = ''your kind of property'', pk_parent = ''continuous'',
           pk_extra_metadata = test_em \<rparr>"

definition pk4 :: property_kind where
  "pk4 = \<lparr> pk_title = ''my kind of property'', pk_parent = ''continuous'',
           pk_extra_metadata = Map.empty \<rparr>"

definition pk5 :: property_kind where
  "pk5 = \<lparr> pk_title = ''my kind of property'', pk_parent = ''discrete'',
           pk_extra_metadata = test_em \<rparr>"

section \<open>Parts, the graph of a store\<close>

text \<open>
  A part as section 3 has it.  The document is opaque to the core except for
  the references derived from it, so a part carries its reference list
  (role tag and target identifier) in the document's place.
\<close>

type_synonym uuid = "128 word"

record part =
  part_identifier :: uuid
  type_tag :: string
  title :: string
  references :: "(string \<times> uuid) list"

definition identifiers :: "part list \<Rightarrow> uuid list" where
  "identifiers store = map part_identifier store"

text \<open>The targets referenced by the part with identifier \<open>u\<close>.\<close>

definition targets_of :: "part list \<Rightarrow> uuid \<Rightarrow> uuid list" where
  "targets_of store u =
     concat (map (\<lambda>p. map snd (references p)) (filter (\<lambda>p. part_identifier p = u) store))"

text \<open>Section 4.4: an edge exists if either part references the other.\<close>

definition related :: "part list \<Rightarrow> uuid \<Rightarrow> uuid \<Rightarrow> bool" where
  "related store a b \<longleftrightarrow> b \<in> set (targets_of store a) \<or> a \<in> set (targets_of store b)"

text \<open>
  Modelled from the spec: \<open>Model.as_graph\<close> is not among the sources (only
  \<open>test_model_as_graph\<close> in tests/test_model.py is).  Nodes and edges are
  those of section 4.4: a node with title and type for a part, an unordered
  pair for two parts one of which references the other.  What a given list of
  identifiers selects is taken from the test, which the code has to pass:
  \<open>as_graph(uuids_subset = [datum.uuid])\<close> has one node and no edge, although
  the datum is referenced by the trajectory and references the crs.  So the
  nodes are the parts of the store that are listed, and the edges those
  between two such parts.
\<close>

definition as_graph ::
  "part list \<Rightarrow> uuid list option
     \<Rightarrow> (uuid \<times> string \<times> string) list \<times> uuid set set" where
  "as_graph store uuids_subset =
     (let subset = (case uuids_subset of None \<Rightarrow> identifiers store | Some us \<Rightarrow> us);
          listed = filter (\<lambda>p. part_identifier p \<in> set subset) store;
          nodes = map (\<lambda>p. (part_identifier p, title p, type_tag p)) listed;
          ids = identifiers listed;
          edges = set (concat (map (\<lambda>a. map (\<lambda>b. {a, b})
                                 (filter (\<lambda>b. a \<noteq> b \<and> related store a b) ids)) ids))
      in (nodes, edges))"

text \<open>The store of the three interconnected parts of section 8.\<close>

definition crs_part :: part where
  "crs_part = \<lparr> part_identifier = 1, type_tag = ''LocalDepth3dCrs'', title = ''crs'',
                references = [] \<rparr>"

definition datum_part :: part where
  "datum_part = \<lparr> part_identifier = 2, type_tag = ''MdDatum'', title = ''datum'',
                  references = [(''LocalCrs'', 1)] \<rparr>"

definition trajectory_part :: part where
  "trajectory_part = \<lparr> part_identifier = 3, type_tag = ''WellboreTrajectoryRepresentation'',
                       title = ''trajectory'',
                       references = [(''MdDatum'', 2), (''LocalCrs'', 1)] \<rparr>"

definition well_store :: "part list" where
  "well_store = [crs_part, datum_part, trajectory_part]"

section \<open>Copying parts with consolidation\<close>




text \<open>Step 3: the search of the target store for an equivalent part of the same type.\<close>

definition equivalent_part :: "(part \<Rightarrow> part \<Rightarrow> bool) \<Rightarrow> part \<Rightarrow> part \<Rightarrow> bool" where
  "equivalent_part rule t p \<longleftrightarrow> type_tag t = type_tag p \<and> rule t p"








text \<open>
  A generic rule in the sense of section 4.5: same title and same
  references (the type is compared by the search).
\<close>

definition generic_rule :: "part \<Rightarrow> part \<Rightarrow> bool" where
  "generic_rule t p \<longleftrightarrow> title t = title p \<and> references t = references p"





section \<open>String lookup\<close>













section \<open>Units of measure\<close>

text \<open>
  Modelled from the spec: \<open>validate_uom_from_string\<close> and the units
  dictionary are not among the sources (only \<open>test_uom_from_string\<close> in
  tests/test_property.py is).  Section 4.7: values are validated against the
  canonical dictionary, case-insensitively unless case sensitivity is asked
  for; unrecognized or empty input maps to the dimensionless unit \<open>Euc\<close>.
  The dictionary is a parameter; \<open>None\<close> is the absent input.
\<close>

definition lower_char :: "char \<Rightarrow> char" where
  "lower_char c =
     (case map_of (zip ''ABCDEFGHIJKLMNOPQRSTUVWXYZ'' ''abcdefghijklmnopqrstuvwxyz'') c of
        Some l \<Rightarrow> l
      | None \<Rightarrow> c)"

definition lower :: "string \<Rightarrow> string" where
  "lower s = map lower_char s"

definition validate_uom_from_string :: "string list \<Rightarrow> string option \<Rightarrow> bool \<Rightarrow> string" where
  "validate_uom_from_string uoms input_uom case_sensitive =
     (case input_uom of
        None \<Rightarrow> ''Euc''
      | Some s \<Rightarrow>
          if s = [] then ''Euc''
          else if s \<in> set uoms then s
          else if case_sensitive then ''Euc''
          else (case find (\<lambda>u. lower u = lower s) uoms of
                  Some u \<Rightarrow> u
                | None \<Rightarrow> ''Euc''))"

definition example_uoms :: "string list" where
  "example_uoms = [''m'', ''gAPI'', ''gal[UK]/mi'', ''Euc'']"

section \<open>Properties of the chronology and metadata rules\<close>

text \<open>
  C5.  Extra metadata are absent when the object has no attribute and its
  xml gives \<open>None\<close>, and otherwise a dictionary \<open>m\<close>, held by the attribute
  or loaded from the xml, which is empty when \<open>dom m = {}\<close>.
  \<open>equivalent_extra_metadata\<close> is true exactly when both sides are absent or
  empty, or both sides are non-empty and equal as key/value mappings; an
  absent side is equivalent to exactly the absent and the empty sides.
\<close>

theorem equivalent_extra_metadata_iff:
  "(\<forall>a \<in> {WithAttribute m, FromXml (Some m)}. \<forall>b \<in> {WithAttribute n, FromXml (Some n)}.
      (equivalent_extra_metadata a b \<longleftrightarrow>
         (dom m = {} \<and> dom n = {}) \<or> (dom m \<noteq> {} \<and> dom n \<noteq> {} \<and> (\<forall>k. m k = n k)))
      \<and> (equivalent_extra_metadata (FromXml None) b \<longleftrightarrow> dom n = {})
      \<and> (equivalent_extra_metadata b (FromXml None) \<longleftrightarrow> dom n = {}))
   \<and> equivalent_extra_metadata (FromXml None) (FromXml None :: ('k, 'v) metadata_holder)"
proof -
  have e: "m = Map.empty \<longleftrightarrow> dom m = {}" "n = Map.empty \<longleftrightarrow> dom n = {}"
    by simp_all
  have q: "m = n \<longleftrightarrow> (\<forall>k. m k = n k)"
    by (simp add: fun_eq_iff)
  have both: "equivalent_extra_metadata a b \<longleftrightarrow>
         (dom m = {} \<and> dom n = {}) \<or> (dom m \<noteq> {} \<and> dom n \<noteq> {} \<and> (\<forall>k. m k = n k))"
    if "a \<in> {WithAttribute m, FromXml (Some m)}" "b \<in> {WithAttribute n, FromXml (Some n)}"
    for a b
    using that unfolding q [symmetric] e [symmetric]
    by (auto simp: equivalent_extra_metadata_def)
  have left: "equivalent_extra_metadata (FromXml None) b \<longleftrightarrow> dom n = {}"
    and right: "equivalent_extra_metadata b (FromXml None) \<longleftrightarrow> dom n = {}"
    if "b \<in> {WithAttribute n, FromXml (Some n)}" for b
    using that unfolding e [symmetric]
    by (auto simp: equivalent_extra_metadata_def)
  have none: "equivalent_extra_metadata (FromXml None) (FromXml None :: ('k, 'v) metadata_holder)"
    by (simp add: equivalent_extra_metadata_def)
  show ?thesis
  proof (intro conjI ballI)
    fix a b
    assume ab: "a \<in> {WithAttribute m, FromXml (Some m)}"
      "b \<in> {WithAttribute n, FromXml (Some n)}"
    show "equivalent_extra_metadata a b \<longleftrightarrow>
         (dom m = {} \<and> dom n = {}) \<or> (dom m \<noteq> {} \<and> dom n \<noteq> {} \<and> (\<forall>k. m k = n k))"
      using ab by (rule both)
    show "equivalent_extra_metadata (FromXml None) b \<longleftrightarrow> dom n = {}"
      using ab(2) by (rule left)
    show "equivalent_extra_metadata b (FromXml None) \<longleftrightarrow> dom n = {}"
      using ab(2) by (rule right)
  next
    show "equivalent_extra_metadata (FromXml None) (FromXml None :: ('k, 'v) metadata_holder)"
      by (rule none)
  qed
qed

theorem equivalent_extra_metadata_iff_witness:
  "equivalent_extra_metadata (FromXml (Some [''source'' \<mapsto> ''survey'']))
       (WithAttribute [''source'' \<mapsto> ''survey''])
   \<and> \<not> equivalent_extra_metadata (FromXml (Some [''source'' \<mapsto> ''survey'']))
       (WithAttribute [''source'' \<mapsto> ''model''])
   \<and> \<not> equivalent_extra_metadata (FromXml None) (WithAttribute [''source'' \<mapsto> ''survey''])
   \<and> equivalent_extra_metadata (FromXml None)
       (WithAttribute (Map.empty :: string \<rightharpoonup> string))
   \<and> equivalent_extra_metadata (FromXml (Some (Map.empty :: string \<rightharpoonup> string)))
       (FromXml None)"
proof -
  let ?s = "[''source'' \<mapsto> ''survey'']" and ?m = "[''source'' \<mapsto> ''model'']"
  let ?e = "Map.empty :: string \<rightharpoonup> string"
  have d: "dom ?s \<noteq> {}" "dom ?m \<noteq> {}" "dom ?e = {}"
    by simp_all
  have "?s ''source'' \<noteq> ?m ''source''"
    by simp
  then have ne: "\<not> (\<forall>k. ?s k = ?m k)"
    by blast
  have a: "FromXml (Some ?s) \<in> {WithAttribute ?s, FromXml (Some ?s)}"
    "WithAttribute ?s \<in> {WithAttribute ?s, FromXml (Some ?s)}"
    "WithAttribute ?m \<in> {WithAttribute ?m, FromXml (Some ?m)}"
    "WithAttribute ?e \<in> {WithAttribute ?e, FromXml (Some ?e)}"
    "FromXml (Some ?e) \<in> {WithAttribute ?e, FromXml (Some ?e)}"
    by simp_all
  note at = equivalent_extra_metadata_iff [THEN conjunct1, THEN bspec, THEN bspec]
  have 1: "equivalent_extra_metadata (FromXml (Some ?s)) (WithAttribute ?s)"
    using at [OF a(1) a(2), THEN conjunct1] d(1) by simp
  have 2: "\<not> equivalent_extra_metadata (FromXml (Some ?s)) (WithAttribute ?m)"
    using at [OF a(1) a(3), THEN conjunct1] d(1,2) ne by simp
  have 3: "\<not> equivalent_extra_metadata (FromXml None) (WithAttribute ?s)"
    using at [OF a(1) a(2), THEN conjunct2, THEN conjunct1] d(1) by simp
  have 4: "equivalent_extra_metadata (FromXml None) (WithAttribute ?e)"
    using at [OF a(4) a(4), THEN conjunct2, THEN conjunct1] d(3) by simp
  have 5: "equivalent_extra_metadata (FromXml (Some ?e)) (FromXml None)"
    using at [OF a(5) a(5), THEN conjunct2, THEN conjunct2] d(3) by simp
  show ?thesis
    by (intro conjI) (rule 1 2 3 4 5)+
qed

text \<open>
  C2, as the claim states it, fails: two missing-pair sentinels are equal
  pairs, and the first test of the function answers \<open>True\<close> for equal pairs.
\<close>

theorem equivalent_chrono_pairs_both_sentinel:
  "equivalent_chrono_pairs (Some (None, None)) (Some (None, None)) (None :: unit option) = True"
  by (simp add: equivalent_chrono_pairs_def)

text \<open>
  C2, amended.  When at least one side is the missing-pair sentinel
  \<open>(None, None)\<close>, \<open>equivalent_chrono_pairs\<close> returns true exactly when
  both sides are the sentinel; with the sentinel on one side only it returns
  false.
\<close>

theorem equivalent_chrono_pairs_sentinel:
  "pair_a = Some (None, None) \<or> pair_b = Some (None, None) \<Longrightarrow>
   equivalent_chrono_pairs pair_a pair_b model
     = (pair_a = Some (None, None) \<and> pair_b = Some (None, None))"
  by (auto simp: equivalent_chrono_pairs_def split: option.splits)

theorem equivalent_chrono_pairs_sentinel_witness:
  "\<not> equivalent_chrono_pairs (Some (None, None)) (Some (Some ''b1'', Some ''t1''))
       (None :: unit option) \<and>
   equivalent_chrono_pairs (Some (None, None)) (Some (None, None)) (None :: unit option)"
  using equivalent_chrono_pairs_sentinel
          [of "Some (None, None)" "Some (Some ''b1'', Some ''t1'')" "None :: unit option"]
        equivalent_chrono_pairs_sentinel
          [of "Some (None, None)" "Some (None, None)" "None :: unit option"]
  by simp

text \<open>
  C6.  Every equivalence rule of this development is reflexive and
  symmetric: \<open>equivalent_chrono_pairs\<close> (for any model argument),
  \<open>equivalent_extra_metadata\<close>, the property kind rule, and the generic
  rule, alone and as the search applies it to parts of the same type.
\<close>

theorem equivalence_rules_reflexive_symmetric:
  "equivalent_chrono_pairs pair_a pair_a model
   \<and> equivalent_chrono_pairs pair_a pair_b model = equivalent_chrono_pairs pair_b pair_a model
   \<and> equivalent_extra_metadata a a
   \<and> equivalent_extra_metadata a b = equivalent_extra_metadata b a
   \<and> property_kind_is_equivalent pk pk
   \<and> property_kind_is_equivalent pk pk' = property_kind_is_equivalent pk' pk
   \<and> generic_rule p p
   \<and> generic_rule p q = generic_rule q p
   \<and> equivalent_part generic_rule p p
   \<and> equivalent_part generic_rule p q = equivalent_part generic_rule q p"
proof -
  have c: "equivalent_chrono_pairs pair_a pair_a model"
    "equivalent_chrono_pairs pair_a pair_b model = equivalent_chrono_pairs pair_b pair_a model"
    by (auto simp: equivalent_chrono_pairs_def split: option.splits)
  have m: "equivalent_extra_metadata a a"
    "equivalent_extra_metadata a b = equivalent_extra_metadata b a"
    by (auto simp: equivalent_extra_metadata_def)
  have k: "property_kind_is_equivalent pk pk"
    "property_kind_is_equivalent pk pk' = property_kind_is_equivalent pk' pk"
    by (auto simp: property_kind_is_equivalent_def equivalent_extra_metadata_def)
  have g: "generic_rule p p" "generic_rule p q = generic_rule q p"
    "equivalent_part generic_rule p p"
    "equivalent_part generic_rule p q = equivalent_part generic_rule q p"
    by (auto simp: generic_rule_def equivalent_part_def)
  show ?thesis
    using c m k g by (intro conjI) assumption+
qed

section \<open>Properties of the time interval node\<close>

lemma find_tag_SubElement:
  "find_tag (SubElement parent child) t =
     (case find_tag parent t of
        Some c \<Rightarrow> Some c
      | None \<Rightarrow> if node_tag child = t then Some child else None)"
proof -
  have "find P (xs @ [y]) =
          (case find P xs of Some c \<Rightarrow> Some c | None \<Rightarrow> if P y then Some y else None)"
    for P :: "xml_node \<Rightarrow> bool" and xs y
    by (induction xs) simp_all
  then show ?thesis
    by (simp add: find_tag_def SubElement_def)
qed

lemma hod_node_bottom:
  "find_nested_tags_text (hod_node_of k model b tp t) [''ChronoBottom'', ''UUID''] = Some b"
  by (simp add: hod_node_of_def create_ref_node_def find_nested_tags_text_def find_tag_def)

lemma hod_node_top:
  "find_nested_tags_text (hod_node_of k model b tp t) [''ChronoTop'', ''UUID''] = Some tp"
  by (simp add: hod_node_of_def create_ref_node_def find_nested_tags_text_def find_tag_def)

text \<open>
  C7, as the claim states it, fails on a parent that already carries a
  sub-node with the tag: the new node is appended after it and the extraction
  reads the first one.
\<close>

theorem extract_after_create_existing_node:
  "extract_has_occurred_during
     (create_xml_has_occurred_during example_consts example_model parent_with_interval
        (Some (Some ''b1'', Some ''t1'')) ''HasOccuredDuring'')
     ''HasOccuredDuring'' = (None, None)"
  by (simp add: extract_has_occurred_during_def create_xml_has_occurred_during_def
        parent_with_interval_def SubElement_def find_tag_def find_nested_tags_text_def)

text \<open>
  C7, amended.  For a parent node that has no sub-node with the tag yet and a
  chrono pair with both UUIDs present, \<open>extract_has_occurred_during\<close> on the
  parent written by \<open>create_xml_has_occurred_during\<close> (same tag) returns
  exactly the pair.
\<close>

theorem extract_after_create:
  "find_tag parent_node t = None \<Longrightarrow>
   extract_has_occurred_during
     (create_xml_has_occurred_during k model parent_node (Some (Some b, Some tp)) t) t
     = (Some b, Some tp)"
  by (simp add: extract_has_occurred_during_def create_xml_has_occurred_during_def
        find_tag_SubElement hod_node_bottom hod_node_top)
     (simp add: hod_node_of_def)

theorem extract_after_create_witness:
  "find_tag example_parent ''HasOccuredDuring'' = None \<and>
   extract_has_occurred_during
     (create_xml_has_occurred_during example_consts example_model example_parent
        (Some (Some ''b1'', Some ''t1'')) ''HasOccuredDuring'') ''HasOccuredDuring''
     = (Some ''b1'', Some ''t1'')"
proof -
  have h: "find_tag example_parent ''HasOccuredDuring'' = None"
    by (simp add: find_tag_def example_parent_def)
  show ?thesis
    using h extract_after_create [OF h, of example_consts example_model "''b1''" "''t1''"]
    by simp
qed

text \<open>
  C10.  \<open>create_xml_has_occurred_during\<close> returns the parent node as it was
  when the pair is \<open>None\<close> or one of its UUIDs is \<open>None\<close>; when both
  UUIDs are present the parent keeps its tag, attributes, text and former
  children and gains exactly one sub-node, at the end.
\<close>

theorem create_xml_has_occurred_during_frame:
  "(hod_pair = None \<or> (\<exists>x. hod_pair = Some (None, x)) \<or> (\<exists>x. hod_pair = Some (x, None))
      \<longrightarrow> create_xml_has_occurred_during k model parent_node hod_pair t = parent_node)
   \<and> (hod_pair = Some (Some b, Some tp) \<longrightarrow>
        (let p = create_xml_has_occurred_during k model parent_node hod_pair t in
           node_tag p = node_tag parent_node \<and> node_attrib p = node_attrib parent_node
           \<and> node_text p = node_text parent_node
           \<and> length (node_children p) = Suc (length (node_children parent_node))
           \<and> butlast (node_children p) = node_children parent_node
           \<and> node_tag (last (node_children p)) = t))"
  by (auto simp: create_xml_has_occurred_during_def SubElement_def hod_node_of_def Let_def
           split: option.splits)

theorem create_xml_has_occurred_during_frame_witness:
  "create_xml_has_occurred_during example_consts example_model example_parent
     (Some (Some ''b1'', None)) ''HasOccuredDuring'' = example_parent
   \<and> create_xml_has_occurred_during example_consts example_model example_parent
       None ''HasOccuredDuring'' = example_parent
   \<and> length (node_children (create_xml_has_occurred_during example_consts example_model
        example_parent (Some (Some ''b1'', Some ''t1'')) ''HasOccuredDuring'')) = 2"
  using create_xml_has_occurred_during_frame
          [of "Some (Some ''b1'', None)" example_consts example_model example_parent
              "''HasOccuredDuring''" "''b1''" "''t1''"]
        create_xml_has_occurred_during_frame
          [of None example_consts example_model example_parent
              "''HasOccuredDuring''" "''b1''" "''t1''"]
        create_xml_has_occurred_during_frame
          [of "Some (Some ''b1'', Some ''t1'')" example_consts example_model example_parent
              "''HasOccuredDuring''" "''b1''" "''t1''"]
  by (simp add: Let_def example_parent_def)

section \<open>Properties of the property kind rule\<close>

text \<open>
  The test asserts 1, 1, 2, 3, 4 and 4 property kinds after \<open>pk1\<close> .. \<open>pk6\<close>
  (\<open>pk2\<close> is created like \<open>pk1\<close>, \<open>pk6\<close> like \<open>pk4\<close>).  The rule with
  the parent kind gives these counts; the rule as the spec words it gives 3
  after \<open>pk5\<close>.
\<close>

lemma test_em_not_empty: "test_em \<noteq> Map.empty"
proof -
  have "test_em ''something'' = Some (PyStr ''important'')"
    by (simp add: test_em_def)
  then show ?thesis
    by (metis option.discI)
qed

lemma test_bespoke_property_kind_counts:
  "counts_after property_kind_is_equivalent [] [pk1, pk1, pk3, pk4, pk5, pk4]
     = [1, 1, 2, 3, 4, 4]"
  by (simp add: create_xml_property_kind_def property_kind_is_equivalent_def
        equivalent_extra_metadata_def pk1_def pk3_def pk4_def pk5_def test_em_not_empty Let_def)

lemma test_bespoke_property_kind_counts_spec_rule:
  "counts_after property_kind_rule_spec [] [pk1, pk1, pk3, pk4, pk5, pk4]
     = [1, 1, 2, 3, 3, 3]"
  by (simp add: create_xml_property_kind_def property_kind_rule_spec_def
        equivalent_extra_metadata_def pk1_def pk3_def pk4_def pk5_def test_em_not_empty Let_def)

text \<open>
  C4, as the claim states it, fails: \<open>pk1\<close> and \<open>pk5\<close> have the same title
  and the same extra metadata and differ in the parent kind; they are not
  equivalent, and creating \<open>pk5\<close> after \<open>pk1\<close> adds a part.
\<close>

theorem property_kind_parent_matters:
  "pk_title pk1 = pk_title pk5 \<and> pk_extra_metadata pk1 = pk_extra_metadata pk5
   \<and> \<not> property_kind_is_equivalent pk5 pk1
   \<and> length (create_xml_property_kind property_kind_is_equivalent [pk1] pk5) = 2"
  by (simp add: create_xml_property_kind_def property_kind_is_equivalent_def pk1_def pk5_def)

text \<open>
  C4, amended.  Two property kinds are equivalent iff they have the same
  title, the same extra metadata (by \<open>equivalent_extra_metadata\<close>) and the
  same parent kind.  Creating a kind that agrees with an existing one in the
  three reuses it and adds no part; creating one that differs from the only
  existing kind in the parent adds a part.
\<close>

theorem property_kind_is_equivalent_iff:
  "(property_kind_is_equivalent a b \<longleftrightarrow>
      pk_title a = pk_title b
      \<and> equivalent_extra_metadata (WithAttribute (pk_extra_metadata a))
                                   (WithAttribute (pk_extra_metadata b))
      \<and> pk_parent a = pk_parent b)
   \<and> (property_kind_is_equivalent b a \<longrightarrow>
        create_xml_property_kind property_kind_is_equivalent [a] b = [a])
   \<and> (pk_parent a \<noteq> pk_parent b \<longrightarrow>
        create_xml_property_kind property_kind_is_equivalent [a] b = [a, b])"
  by (auto simp: property_kind_is_equivalent_def create_xml_property_kind_def)

theorem property_kind_is_equivalent_iff_witness:
  "property_kind_is_equivalent pk1 pk1
   \<and> create_xml_property_kind property_kind_is_equivalent [pk1] pk1 = [pk1]
   \<and> pk_parent pk1 \<noteq> pk_parent pk5
   \<and> create_xml_property_kind property_kind_is_equivalent [pk1] pk5 = [pk1, pk5]"
  using property_kind_is_equivalent_iff [of pk1 pk1]
        property_kind_is_equivalent_iff [of pk1 pk5]
  by (simp add: equivalent_extra_metadata_def pk1_def pk5_def)

section \<open>Properties of the graph\<close>

lemma well_store_related:
  "related well_store 2 1" "related well_store 2 3" "related well_store 1 3"
  by (simp_all add: related_def targets_of_def well_store_def crs_part_def datum_part_def
        trajectory_part_def)

lemma well_store_identifiers: "identifiers well_store = [1, 2, 3]"
  by (simp add: identifiers_def well_store_def crs_part_def datum_part_def
        trajectory_part_def)

lemma listed_identifiers:
  "set (identifiers (filter (\<lambda>p. part_identifier p \<in> set us) store))
     = set us \<inter> set (identifiers store)"
  by (auto simp: identifiers_def)

lemma as_graph_edge_iff:
  "e \<in> snd (as_graph store (Some us)) \<longleftrightarrow>
     (\<exists>a'\<in>set us \<inter> set (identifiers store). \<exists>b'\<in>set us \<inter> set (identifiers store).
        a' \<noteq> b' \<and> related store a' b' \<and> e = {a', b'})"
proof -
  let ?ids = "identifiers (filter (\<lambda>p. part_identifier p \<in> set us) store)"
  have "e \<in> snd (as_graph store (Some us)) \<longleftrightarrow>
          (\<exists>a'\<in>set ?ids. \<exists>b'\<in>set ?ids. a' \<noteq> b' \<and> related store a' b' \<and> e = {a', b'})"
    by (auto simp: as_graph_def Let_def)
  then show ?thesis
    unfolding listed_identifiers .
qed

lemma as_graph_edge_ends:
  "{a, b} \<in> snd (as_graph store (Some us)) \<longleftrightarrow>
     a \<in> set us \<and> b \<in> set us \<and> a \<in> set (identifiers store) \<and> b \<in> set (identifiers store)
     \<and> a \<noteq> b \<and> related store a b"
proof
  assume "{a, b} \<in> snd (as_graph store (Some us))"
  then obtain a' b' where e: "{a, b} = {a', b'}"
      "a' \<in> set us \<inter> set (identifiers store)" "b' \<in> set us \<inter> set (identifiers store)"
      "a' \<noteq> b'" "related store a' b'"
    unfolding as_graph_edge_iff by blast
  have sym: "related store x y \<longleftrightarrow> related store y x" for x y
    by (auto simp: related_def)
  from e(1) have "a = a' \<and> b = b' \<or> a = b' \<and> b = a'"
    by (simp add: doubleton_eq_iff)
  then show "a \<in> set us \<and> b \<in> set us \<and> a \<in> set (identifiers store)
     \<and> b \<in> set (identifiers store) \<and> a \<noteq> b \<and> related store a b"
    using e(2-5) sym by blast
next
  assume "a \<in> set us \<and> b \<in> set us \<and> a \<in> set (identifiers store)
     \<and> b \<in> set (identifiers store) \<and> a \<noteq> b \<and> related store a b"
  then show "{a, b} \<in> snd (as_graph store (Some us))"
    unfolding as_graph_edge_iff by blast
qed

lemma as_graph_well_store_datum:
  "as_graph well_store (Some [2]) = ([(2, ''datum'', ''MdDatum'')], {})"
  by (simp add: as_graph_def identifiers_def well_store_def crs_part_def datum_part_def
        trajectory_part_def)

text \<open>
  C3, as the claim states it, fails: in the store of three interconnected
  parts the crs and the trajectory are connected to the datum, and the graph
  for the datum alone has the datum as its only node and no edge.
\<close>

theorem as_graph_datum_only:
  "as_graph well_store (Some [2]) = ([(2, ''datum'', ''MdDatum'')], {})
   \<and> related well_store 2 1 \<and> related well_store 2 3"
  by (simp add: well_store_related)
     (simp add: as_graph_def identifiers_def well_store_def crs_part_def datum_part_def
        trajectory_part_def)

text \<open>
  C3, amended.  For a given list of identifiers, \<open>as_graph\<close> returns a node
  for exactly the parts of the store that are listed, and its edges are
  exactly the pairs of two different listed parts of the store one of which
  references the other; parts connected to a listed part are not added.  On
  the store of three interconnected parts the datum alone gives one node and
  no edge, and no list at all gives the three nodes and the three edges.
\<close>

theorem as_graph_subset:
  "(fst ` set (fst (as_graph store (Some us))) = set us \<inter> set (identifiers store))
   \<and> (\<forall>a b. {a, b} \<in> snd (as_graph store (Some us)) \<longleftrightarrow>
          a \<in> set us \<and> b \<in> set us
          \<and> a \<in> set (identifiers store) \<and> b \<in> set (identifiers store)
          \<and> a \<noteq> b \<and> related store a b)
   \<and> (\<forall>e \<in> snd (as_graph store (Some us)).
          \<exists>a b. e = {a, b} \<and> a \<in> fst ` set (fst (as_graph store (Some us)))
               \<and> b \<in> fst ` set (fst (as_graph store (Some us))))
   \<and> length (fst (as_graph well_store (Some [2]))) = 1
   \<and> snd (as_graph well_store (Some [2])) = {}
   \<and> fst ` set (fst (as_graph well_store None)) = {1, 2, 3}
   \<and> snd (as_graph well_store None) = {{3, 2}, {3, 1}, {2, 1}}"
proof -
  have nodes: "fst ` set (fst (as_graph store (Some us))) = set us \<inter> set (identifiers store)"
    by (force simp: as_graph_def identifiers_def image_iff)
  have ends: "\<forall>e \<in> snd (as_graph store (Some us)).
          \<exists>a b. e = {a, b} \<and> a \<in> fst ` set (fst (as_graph store (Some us)))
               \<and> b \<in> fst ` set (fst (as_graph store (Some us)))"
  proof (intro ballI)
    fix e assume "e \<in> snd (as_graph store (Some us))"
    then obtain a b where "e = {a, b}" "a \<in> set us \<inter> set (identifiers store)"
        "b \<in> set us \<inter> set (identifiers store)"
      unfolding as_graph_edge_iff by blast
    then show "\<exists>a b. e = {a, b} \<and> a \<in> fst ` set (fst (as_graph store (Some us)))
               \<and> b \<in> fst ` set (fst (as_graph store (Some us)))"
      unfolding nodes by blast
  qed
  have l: "length (fst (as_graph well_store (Some [2]))) = 1"
    "snd (as_graph well_store (Some [2])) = {}"
    unfolding as_graph_well_store_datum by simp_all
  have rel: "related well_store a b \<longleftrightarrow>
               (a = 2 \<and> b = 1) \<or> (a = 1 \<and> b = 2) \<or> (a = 3 \<and> b = 2) \<or> (a = 2 \<and> b = 3)
               \<or> (a = 3 \<and> b = 1) \<or> (a = 1 \<and> b = 3)" for a b
    by (auto simp: related_def targets_of_def well_store_def crs_part_def datum_part_def
          trajectory_part_def)
  have all_listed: "filter (\<lambda>p. part_identifier p \<in> set [1, 2, 3]) well_store = well_store"
    by (simp add: well_store_def crs_part_def datum_part_def trajectory_part_def)
  have "fst ` set (fst (as_graph well_store None)) = set (identifiers well_store)"
    by (force simp: as_graph_def identifiers_def image_iff)
  then have all_nodes: "fst ` set (fst (as_graph well_store None)) = {1, 2, 3}"
    by (simp add: well_store_identifiers insert_commute)
  have lst: "concat (map (\<lambda>a. map (\<lambda>b. {a, b})
               (filter (\<lambda>b. a \<noteq> b \<and> related well_store a b) [1, 2, 3])) [1, 2, 3])
             = [{1, 2}, {1, 3}, {2, 1}, {2, 3}, {3, 1}, {3, 2::uuid}]"
    by (simp add: rel)
  have raw: "snd (as_graph well_store None)
               = set [{1, 2}, {1, 3}, {2, 1}, {2, 3}, {3, 1}, {3, 2}]"
    unfolding as_graph_def Let_def option.case well_store_identifiers all_listed snd_conv lst ..
  have sw: "{2, 1} = {1, 2::uuid}" "{3, 1} = {1, 3::uuid}" "{3, 2} = {2, 3::uuid}"
    by (rule insert_commute)+
  have all_edges: "snd (as_graph well_store None) = {{3, 2}, {3, 1}, {2, 1}}"
    unfolding raw sw by (simp add: insert_commute)
  have edges: "\<forall>a b. {a, b} \<in> snd (as_graph store (Some us)) \<longleftrightarrow>
          a \<in> set us \<and> b \<in> set us
          \<and> a \<in> set (identifiers store) \<and> b \<in> set (identifiers store)
          \<and> a \<noteq> b \<and> related store a b"
    by (intro allI) (rule as_graph_edge_ends)
  show ?thesis
    by (intro conjI) (rule nodes edges ends l all_nodes all_edges)+
qed

theorem as_graph_subset_witness:
  "fst ` set (fst (as_graph well_store (Some [2]))) = {2}
   \<and> {2, 1} \<in> snd (as_graph well_store (Some [2, 1]))
   \<and> {2, 7} \<notin> snd (as_graph well_store (Some [2, 7]))
   \<and> (\<exists>a b. {2, 1} = {a, b} \<and> a \<in> fst ` set (fst (as_graph well_store (Some [2, 1])))
            \<and> b \<in> fst ` set (fst (as_graph well_store (Some [2, 1]))))"
proof -
  have n: "fst ` set (fst (as_graph well_store (Some [2])))
             = set [2] \<inter> set (identifiers well_store)"
    using as_graph_subset [of well_store "[2]"] by (rule conjunct1)
  have iff: "{a, b} \<in> snd (as_graph well_store (Some us)) \<longleftrightarrow>
          a \<in> set us \<and> b \<in> set us
          \<and> a \<in> set (identifiers well_store) \<and> b \<in> set (identifiers well_store)
          \<and> a \<noteq> b \<and> related well_store a b" for a b us
    by (rule as_graph_subset [of well_store us, THEN conjunct2, THEN conjunct1, rule_format])
  have e: "{2, 1} \<in> snd (as_graph well_store (Some [2, 1]))"
    unfolding iff by (simp add: well_store_identifiers well_store_related)
  have ne: "{2, 7} \<notin> snd (as_graph well_store (Some [2, 7]))"
    unfolding iff by (simp add: well_store_identifiers)
  have ex: "\<exists>a b. {2, 1} = {a, b} \<and> a \<in> fst ` set (fst (as_graph well_store (Some [2, 1])))
            \<and> b \<in> fst ` set (fst (as_graph well_store (Some [2, 1])))"
    using as_graph_subset [of well_store "[2, 1]", THEN conjunct2, THEN conjunct2,
        THEN conjunct1, rule_format, OF e] .
  have "set [2 :: uuid] \<inter> set (identifiers well_store) = {2}"
    by (simp add: well_store_identifiers)
  then show ?thesis
    using n e ne ex by simp
qed

section \<open>Properties of the string lookup\<close>




















section \<open>Properties of the unit validation\<close>

lemma lower_gAPI: "lower ''gAPI'' = ''gapi''" "lower ''gapi'' = ''gapi''"
  by (simp_all add: lower_def lower_char_def)

lemma find_Some_holds: "find P xs = Some x \<Longrightarrow> x \<in> set xs \<and> P x"
  by (induction xs) (auto split: if_splits)

lemma find_None_none: "find P xs = None \<longleftrightarrow> (\<forall>x\<in>set xs. \<not> P x)"
  by (induction xs) auto

text \<open>
  C9.  Unit validation returns a string for every input.  \<open>None\<close> and the
  empty string give \<open>Euc\<close>; a non-empty string of the dictionary gives
  itself; without case sensitivity a string equal to a unit up to case gives
  a unit of the dictionary equal to it up to case; a string that is not
  recognized gives \<open>Euc\<close>.  With \<open>gAPI\<close> the only unit spelt \<open>gapi\<close> up
  to case, \<open>gapi\<close> gives \<open>gAPI\<close> without case sensitivity and \<open>Euc\<close>
  with it.
\<close>

theorem validate_uom_from_string_total:
  "validate_uom_from_string uoms None cs = ''Euc''
   \<and> validate_uom_from_string uoms (Some []) cs = ''Euc''
   \<and> (s \<noteq> [] \<and> s \<in> set uoms \<longrightarrow> validate_uom_from_string uoms (Some s) cs = s)
   \<and> (s \<noteq> [] \<and> (\<exists>u\<in>set uoms. lower u = lower s) \<longrightarrow>
        validate_uom_from_string uoms (Some s) False \<in> set uoms
        \<and> lower (validate_uom_from_string uoms (Some s) False) = lower s)
   \<and> (s \<notin> set uoms \<longrightarrow> validate_uom_from_string uoms (Some s) True = ''Euc'')
   \<and> ((\<forall>u\<in>set uoms. lower u \<noteq> lower s) \<longrightarrow>
        validate_uom_from_string uoms (Some s) False = ''Euc'')
   \<and> (''gAPI'' \<in> set uoms \<and> (\<forall>u\<in>set uoms. lower u = ''gapi'' \<longrightarrow> u = ''gAPI'') \<longrightarrow>
        validate_uom_from_string uoms (Some ''gapi'') False = ''gAPI''
        \<and> validate_uom_from_string uoms (Some ''gapi'') True = ''Euc'')"
proof -
  have c3: "validate_uom_from_string uoms (Some s) cs = s" if "s \<noteq> []" "s \<in> set uoms"
    using that by (simp add: validate_uom_from_string_def)
  have c4: "validate_uom_from_string uoms (Some t) False \<in> set uoms
            \<and> lower (validate_uom_from_string uoms (Some t) False) = lower t"
    if ne: "t \<noteq> []" and ex: "\<exists>u\<in>set uoms. lower u = lower t" for t
  proof (cases "t \<in> set uoms")
    case True
    then show ?thesis
      using ne by (simp add: validate_uom_from_string_def)
  next
    case False
    have "find (\<lambda>u. lower u = lower t) uoms \<noteq> None"
      using ex by (simp add: find_None_none)
    then obtain u where u: "find (\<lambda>u. lower u = lower t) uoms = Some u"
      by blast
    then have "u \<in> set uoms \<and> lower u = lower t"
      by (rule find_Some_holds)
    then show ?thesis
      using ne False u by (simp add: validate_uom_from_string_def)
  qed
  have c5: "validate_uom_from_string uoms (Some s) True = ''Euc''" if "s \<notin> set uoms"
    using that by (simp add: validate_uom_from_string_def)
  have c6: "validate_uom_from_string uoms (Some s) False = ''Euc''"
    if none: "\<forall>u\<in>set uoms. lower u \<noteq> lower s"
  proof -
    have "s \<notin> set uoms"
      using none by blast
    moreover have "find (\<lambda>u. lower u = lower s) uoms = None"
      using none by (simp add: find_None_none)
    ultimately show ?thesis
      by (simp add: validate_uom_from_string_def)
  qed
  have c7: "validate_uom_from_string uoms (Some ''gapi'') False = ''gAPI''
            \<and> validate_uom_from_string uoms (Some ''gapi'') True = ''Euc''"
    if g: "''gAPI'' \<in> set uoms" and only: "\<forall>u\<in>set uoms. lower u = ''gapi'' \<longrightarrow> u = ''gAPI''"
  proof -
    have notin: "''gapi'' \<notin> set uoms"
      using only lower_gAPI(2) by fastforce
    have "\<exists>u\<in>set uoms. lower u = lower ''gapi''"
      using g lower_gAPI by metis
    then have "validate_uom_from_string uoms (Some ''gapi'') False \<in> set uoms
               \<and> lower (validate_uom_from_string uoms (Some ''gapi'') False) = lower ''gapi''"
      using c4 [of "''gapi''"] by simp
    then have "validate_uom_from_string uoms (Some ''gapi'') False = ''gAPI''"
      using only lower_gAPI(2) by metis
    moreover have "validate_uom_from_string uoms (Some ''gapi'') True = ''Euc''"
      using notin by (simp add: validate_uom_from_string_def)
    ultimately show ?thesis
      by blast
  qed
  have c1: "validate_uom_from_string uoms None cs = ''Euc''"
    "validate_uom_from_string uoms (Some []) cs = ''Euc''"
    by (simp_all add: validate_uom_from_string_def)
  show ?thesis
    using c1 c3 c4 [of s] c5 c6 c7 by blast
qed

theorem validate_uom_from_string_total_witness:
  "validate_uom_from_string example_uoms (Some ''gapi'') False = ''gAPI''
   \<and> validate_uom_from_string example_uoms (Some ''gapi'') True = ''Euc''
   \<and> validate_uom_from_string example_uoms (Some ''foobar'') True = ''Euc''
   \<and> validate_uom_from_string example_uoms (Some ''m'') False = ''m''
   \<and> validate_uom_from_string example_uoms None False = ''Euc''"
proof -
  have low: "lower ''m'' = ''m''" "lower ''gAPI'' = ''gapi''"
    "lower ''gal[UK]/mi'' = ''gal[uk]/mi''" "lower ''Euc'' = ''euc''"
    by (simp_all add: lower_def lower_char_def)
  have h: "''gAPI'' \<in> set example_uoms
           \<and> (\<forall>u\<in>set example_uoms. lower u = ''gapi'' \<longrightarrow> u = ''gAPI'')"
    by (simp add: example_uoms_def low)
  have m: "''m'' \<in> set example_uoms" "''foobar'' \<notin> set example_uoms"
    by (simp_all add: example_uoms_def)
  show ?thesis
    using h m validate_uom_from_string_total [of example_uoms False "''m''"]
      validate_uom_from_string_total [of example_uoms True "''foobar''"]
    by simp
qed

section \<open>Properties of the copy\<close>


















end
